theory Spec2Isabelle
  imports Complex_Main
begin

section \<open>The WACC calculator (\<^verbatim>\<open>wacc_app.py\<close>)\<close>

text \<open>
  The script computes with Python floats. The model computes with the real numbers, so
  every statement below is about the formulas of the script in exact arithmetic; rounding
  of the binary floating-point representation is not modelled. What is modelled exactly
  is the control flow of the script and the one way its arithmetic can fail: a division
  of Python floats by zero raises \<^verbatim>\<open>ZeroDivisionError\<close>.
\<close>

subsection \<open>Faults\<close>

datatype py_error = ZeroDivisionError

definition py_div :: "real \<Rightarrow> real \<Rightarrow> py_error + real" where
  \<comment> \<open>\<^verbatim>\<open>a / b\<close>\<close>
  "py_div a b = (if b = 0 then Inl ZeroDivisionError else Inr (a / b))"

subsection \<open>The calculation functions (lines 11 to 30)\<close>

definition calcular_ke_capm :: "real \<Rightarrow> real \<Rightarrow> real \<Rightarrow> real" where
  "calcular_ke_capm rf beta rm = rf + beta * (rm - rf)"

definition calcular_wacc :: "real \<Rightarrow> real \<Rightarrow> real \<Rightarrow> real \<Rightarrow> real \<Rightarrow> py_error + real" where
  "calcular_wacc D E rD rE T =
     (let V = D + E in
      if V = 0 then Inr 0
      else case py_div D V of Inl e \<Rightarrow> Inl e | Inr wD \<Rightarrow>
           (case py_div E V of Inl e \<Rightarrow> Inl e | Inr wE \<Rightarrow>
              Inr (wE * rE + wD * rD * (1 - T))))"

definition hamada_relever_beta :: "real \<Rightarrow> real \<Rightarrow> real \<Rightarrow> real \<Rightarrow> py_error + real" where
  "hamada_relever_beta beta_unlevered D E T =
     (if E = 0 then Inr beta_unlevered
      else case py_div D E of Inl e \<Rightarrow> Inl e | Inr q \<Rightarrow>
             Inr (beta_unlevered * (1 + (1 - T) * q)))"

subsection \<open>The sidebar inputs (lines 33 to 53)\<close>

text \<open>
  The third sidebar section defines either the three CAPM inputs (checkbox
  \<^verbatim>\<open>usar_capm\<close> ticked) or the manual cost of equity; the variables of the other
  branch do not exist.
\<close>

datatype capm_inputs =
    Usar_capm (rf_input: real) (beta_input: real) (rm_input: real)
  | Manual (rE_manual: real)

record inputs =
  D_input :: real
  E_input :: real
  T_input :: real
  rD_input :: real
  roic_input :: real
  capm :: capm_inputs

fun rE_final :: "capm_inputs \<Rightarrow> real" where
  "rE_final (Usar_capm rf b rm) = calcular_ke_capm rf b rm"
| "rE_final (Manual r) = r"

subsection \<open>Current WACC, spread and EVA (lines 56 to 58)\<close>

definition wacc_atual :: "inputs \<Rightarrow> py_error + real" where
  "wacc_atual i =
     calcular_wacc (D_input i) (E_input i) (rD_input i) (rE_final (capm i)) (T_input i)"

definition spread_economico :: "real \<Rightarrow> real \<Rightarrow> real" where
  \<comment> \<open>\<^verbatim>\<open>roic_input - wacc_atual\<close>\<close>
  "spread_economico roic wacc = roic - wacc"

definition eva :: "real \<Rightarrow> real \<Rightarrow> real \<Rightarrow> real" where
  \<comment> \<open>\<^verbatim>\<open>(D_input + E_input) * spread_economico\<close>\<close>
  "eva D E spread = (D + E) * spread"

subsection \<open>The diagnosis of the first tab (lines 78 to 86)\<close>

text \<open>
  The three branches show \<^verbatim>\<open>st.success\<close> ("Excelente!"), \<^verbatim>\<open>st.warning\<close>
  ("Atencao:") and \<^verbatim>\<open>st.error\<close> ("PERIGO:"); the specification calls them
  ValueCreationStrong, ValueCreationMarginal and ValueDestruction.
\<close>

datatype diagnostico = Excelente | Atencao | Perigo

definition diagnosticar :: "real \<Rightarrow> diagnostico" where
  "diagnosticar spread =
     (if spread > 0.02 then Excelente
      else if spread > 0 then Atencao
      else Perigo)"

record painel =
  p_wacc :: real
  p_ke :: real
  p_spread :: real
  p_eva :: real
  p_diagnostico :: diagnostico

definition tab1 :: "inputs \<Rightarrow> py_error + painel" where
  "tab1 i =
     (case wacc_atual i of Inl e \<Rightarrow> Inl e | Inr w \<Rightarrow>
        (let s = spread_economico (roic_input i) w in
         Inr \<lparr>p_wacc = w, p_ke = rE_final (capm i), p_spread = s,
              p_eva = eva (D_input i) (E_input i) s,
              p_diagnostico = diagnosticar s\<rparr>))"

subsection \<open>The structure simulation of the second tab (lines 96 to 129)\<close>

fun beta_atual :: "capm_inputs \<Rightarrow> real" where
  "beta_atual (Usar_capm rf b rm) = b"
| "beta_atual (Manual r) = 1.0"

fun rf_sim :: "capm_inputs \<Rightarrow> real" where
  "rf_sim (Usar_capm rf b rm) = rf"
| "rf_sim (Manual r) = 0.04"

fun rm_sim :: "capm_inputs \<Rightarrow> real" where
  "rm_sim (Usar_capm rf b rm) = rm"
| "rm_sim (Manual r) = 0.10"

definition delever :: "real \<Rightarrow> real \<Rightarrow> real \<Rightarrow> real \<Rightarrow> py_error + real" where
  \<comment> \<open>line 97: \<^verbatim>\<open>beta_atual / (1 + (1 - T_input) * (D_input/E_input))\<close>\<close>
  "delever beta D E T =
     (case py_div D E of Inl e \<Rightarrow> Inl e | Inr q \<Rightarrow> py_div beta (1 + (1 - T) * q))"

definition beta_unlevered :: "inputs \<Rightarrow> py_error + real" where
  "beta_unlevered i = delever (beta_atual (capm i)) (D_input i) (E_input i) (T_input i)"

definition linspace :: "real \<Rightarrow> real \<Rightarrow> nat \<Rightarrow> real list" where
  \<comment> \<open>\<^verbatim>\<open>np.linspace(start, stop, num)\<close> for \<open>num > 1\<close>: \<open>num\<close> evenly spaced
      samples over the closed interval, end point included\<close>
  "linspace start stop num =
     map (\<lambda>k. start + real k * ((stop - start) / real (num - 1))) [0..<num]"

definition leverage_ratios :: "real list" where
  "leverage_ratios = linspace 0.0 0.95 50"

text \<open>
  The values of the local variables of one pass through the loop body. The sampled
  weights are numpy floats, whose division by zero gives an infinity instead of raising;
  both divisions of the loop body are guarded against a zero divisor (\<^verbatim>\<open>we <= 0.01\<close>
  and \<^verbatim>\<open>E == 0\<close>), so the fault branch of \<open>py_div\<close> is never reached there
  (\<open>passo_total\<close> below).
\<close>

record amostra =
  we :: real
  de_ratio :: real
  beta_relevered :: real
  new_ke :: real
  risk_premium_debt :: real
  new_kd :: real
  new_wacc :: real

definition calc_de_ratio :: "real \<Rightarrow> real \<Rightarrow> py_error + real" where
  \<comment> \<open>lines 110 to 113\<close>
  "calc_de_ratio wd w = (if w \<le> 0.01 then Inr 99 else py_div wd w)"

definition calc_risk_premium_debt :: "real \<Rightarrow> real" where
  \<comment> \<open>line 122\<close>
  "calc_risk_premium_debt wd = (if wd < 0.5 then 0 else (wd - 0.5) ^ 2 * 0.5)"

definition calc_new_kd :: "real \<Rightarrow> real \<Rightarrow> real" where
  \<comment> \<open>line 123, with the premium of line 122: the cost of debt at debt weight \<open>wd\<close>\<close>
  "calc_new_kd rD wd = rD + calc_risk_premium_debt wd"

definition passo :: "real \<Rightarrow> real \<Rightarrow> real \<Rightarrow> real \<Rightarrow> real \<Rightarrow> real \<Rightarrow> py_error + amostra" where
  \<comment> \<open>the loop body, lines 108 to 126; \<open>bu\<close> is \<^verbatim>\<open>beta_unlevered\<close>\<close>
  "passo bu T rD rf rm wd =
     (let w = 1 - wd in
      case calc_de_ratio wd w of Inl e \<Rightarrow> Inl e | Inr de \<Rightarrow>
      (case hamada_relever_beta bu (wd * 100) (w * 100) T of Inl e \<Rightarrow> Inl e | Inr bl \<Rightarrow>
        (let ke = rf + bl * (rm - rf);
             rp = calc_risk_premium_debt wd;
             kd = calc_new_kd rD wd;
             wacc = w * ke + wd * kd * (1 - T)
         in Inr \<lparr>we = w, de_ratio = de, beta_relevered = bl, new_ke = ke,
                 risk_premium_debt = rp, new_kd = kd, new_wacc = wacc\<rparr>)))"

text \<open>
  The loop appends to \<^verbatim>\<open>wacc_simulado\<close> and \<^verbatim>\<open>ke_simulado\<close>;
  \<^verbatim>\<open>kd_simulado\<close> is created empty and never appended to.
\<close>

record curvas =
  wacc_simulado :: "real list"
  ke_simulado :: "real list"
  kd_simulado :: "real list"

fun laco :: "real \<Rightarrow> real \<Rightarrow> real \<Rightarrow> real \<Rightarrow> real \<Rightarrow> real list \<Rightarrow> curvas \<Rightarrow> py_error + curvas" where
  "laco bu T rD rf rm [] c = Inr c"
| "laco bu T rD rf rm (wd # wds) c =
     (case passo bu T rD rf rm wd of Inl e \<Rightarrow> Inl e | Inr a \<Rightarrow>
        laco bu T rD rf rm wds
          (c\<lparr>wacc_simulado := wacc_simulado c @ [new_wacc a],
             ke_simulado := ke_simulado c @ [new_ke a]\<rparr>))"

definition tab2 :: "inputs \<Rightarrow> py_error + curvas" where
  "tab2 i =
     (case beta_unlevered i of Inl e \<Rightarrow> Inl e | Inr bu \<Rightarrow>
        laco bu (T_input i) (rD_input i) (rf_sim (capm i)) (rm_sim (capm i)) leverage_ratios
          \<lparr>wacc_simulado = [], ke_simulado = [], kd_simulado = []\<rparr>)"

subsection \<open>The default inputs of the sidebar widgets\<close>

text \<open>
  The \<^verbatim>\<open>value=\<close> arguments of the widgets of lines 34 to 48; the percentages are
  divided by 100 as the script does. They are also the inputs of the end-to-end example
  of the specification.
\<close>

definition entradas_padrao :: inputs where
  "entradas_padrao =
     \<lparr>D_input = 500000.0, E_input = 1000000.0, T_input = 0.34, rD_input = 8.0 / 100,
      roic_input = 12.0 / 100, capm = Usar_capm (4.0 / 100) 1.1 (10.0 / 100)\<rparr>"

section \<open>Auxiliary facts\<close>

lemma calcular_wacc_zero:
  "D + E = 0 \<Longrightarrow> calcular_wacc D E rD rE T = Inr 0"
  by (simp add: calcular_wacc_def)

lemma calcular_wacc_nonzero:
  "D + E \<noteq> 0 \<Longrightarrow>
   calcular_wacc D E rD rE T = Inr ((E / (D + E)) * rE + (D / (D + E)) * rD * (1 - T))"
  by (simp add: calcular_wacc_def py_div_def Let_def)

lemma calcular_wacc_total: "\<exists>w. calcular_wacc D E rD rE T = Inr w"
  by (cases "D + E = 0") (simp_all add: calcular_wacc_zero calcular_wacc_nonzero)

lemma hamada_relever_beta_eq:
  "hamada_relever_beta bu D E T = Inr (if E = 0 then bu else bu * (1 + (1 - T) * (D / E)))"
  by (simp add: hamada_relever_beta_def py_div_def)

lemma calc_de_ratio_eq:
  "calc_de_ratio wd w = Inr (if w \<le> 0.01 then 99 else wd / w)"
  by (auto simp add: calc_de_ratio_def py_div_def)

text \<open>The loop body and the loop never raise, whatever the sampled debt weights are.\<close>

lemma passo_total: "\<exists>a. passo bu T rD rf rm wd = Inr a"
  by (simp add: passo_def Let_def calc_de_ratio_eq hamada_relever_beta_eq)

lemma laco_total: "\<exists>c'. laco bu T rD rf rm wds c = Inr c'"
proof (induction wds arbitrary: c)
  case Nil
  show ?case by simp
next
  case (Cons wd wds)
  obtain a where a: "passo bu T rD rf rm wd = Inr a"
    using passo_total by blast
  show ?case using Cons.IH by (simp add: a)
qed

text \<open>
  With a tax rate in \<open>[0, 1]\<close>, non-negative debt and positive equity the Hamada factor
  is at least 1, so the delevering of line 97 divides by a non-zero number.
\<close>

lemma hamada_denominator_pos:
  assumes "0 \<le> (T::real)" "T \<le> 1" "0 \<le> (D::real)" "0 < (E::real)"
  shows "0 < 1 + (1 - T) * (D / E)"
proof -
  have "0 \<le> 1 - T" "0 \<le> D / E" using assms by simp_all
  then have "0 \<le> (1 - T) * (D / E)" by (rule mult_nonneg_nonneg)
  then show ?thesis by linarith
qed

lemma delever_eq:
  assumes "0 \<le> T" "T \<le> 1" "0 \<le> D" "0 < E"
  shows "delever b D E T = Inr (b / (1 + (1 - T) * (D / E)))"
  using hamada_denominator_pos [OF assms] assms
  by (simp add: delever_def py_div_def)

lemma tab2_total:
  assumes "0 \<le> T_input i" "T_input i \<le> 1" "0 \<le> D_input i" "0 < E_input i"
  shows "\<exists>c. tab2 i = Inr c"
  using laco_total by (simp add: tab2_def beta_unlevered_def delever_eq [OF assms])

text \<open>The sampling grid: 50 points \<open>k * (0.95 / 49)\<close>, \<open>k = 0, ..., 49\<close>.\<close>

lemma leverage_ratios_set:
  "set leverage_ratios = (\<lambda>k. real k * (0.95 / 49)) ` {0..<50}"
  by (simp add: leverage_ratios_def linspace_def)

lemma leverage_ratios_range:
  assumes "wd \<in> set leverage_ratios"
  shows "0 \<le> wd \<and> wd \<le> 0.95"
proof -
  from assms obtain k :: nat where k: "k < 50" "wd = real k * (0.95 / 49)"
    by (auto simp add: leverage_ratios_set)
  from k(1) have "real k \<le> 49" by simp
  then have "real k * (0.95 / 49) \<le> 49 * (0.95 / 49)"
    by (intro mult_right_mono) simp_all
  then show ?thesis using k(2) by simp
qed

lemma leverage_ratios_last: "0.95 \<in> set leverage_ratios"
proof -
  have "(0.95::real) = real 49 * (0.95 / 49)" by simp
  moreover have "(49::nat) \<in> {0..<50}" by simp
  ultimately show ?thesis unfolding leverage_ratios_set by (rule image_eqI)
qed

section \<open>The claims\<close>

subsection \<open>C1: faults of the core computations\<close>

text \<open>
  Claim C1 says that for a tax rate in \<open>[0, 1]\<close> and non-negative debt and equity no core
  computation raises, the delevering of the structure simulator included. The relevering
  function guards \<open>E = 0\<close> and the WACC function guards \<open>D + E = 0\<close>, but the delevering
  of line 97 divides \<^verbatim>\<open>D_input\<close> by \<^verbatim>\<open>E_input\<close> unguarded: with the default
  inputs and the equity set to 0 it raises \<^verbatim>\<open>ZeroDivisionError\<close>, and so does the
  whole simulation of the second tab. (With positive equity nothing raises:
  \<open>tab2_total\<close>.)
\<close>

theorem delever_zero_equity_fault:
  "beta_unlevered (entradas_padrao\<lparr>E_input := 0\<rparr>) = Inl ZeroDivisionError \<and>
   tab2 (entradas_padrao\<lparr>E_input := 0\<rparr>) = Inl ZeroDivisionError"
  by (simp add: tab2_def beta_unlevered_def delever_def py_div_def entradas_padrao_def)

subsection \<open>C2: the substituted debt/equity ratio\<close>


subsection \<open>C3: the WACC formula\<close>

text \<open>
  Claim C3: for all \<open>D\<close>, \<open>E\<close>, \<open>rD\<close>, \<open>rE\<close>, \<open>T\<close> the WACC function returns 0 when
  \<open>D + E = 0\<close> and otherwise \<open>(E / (D + E)) * rE + (D / (D + E)) * rD * (1 - T)\<close>; it
  never raises.
\<close>

theorem calcular_wacc_spec:
  "calcular_wacc D E rD rE T =
     Inr (if D + E = 0 then 0 else (E / (D + E)) * rE + (D / (D + E)) * rD * (1 - T))"
  by (simp add: calcular_wacc_def py_div_def Let_def)

theorem calcular_wacc_spec_witness:
  "calcular_wacc 0 0 0.08 0.106 0.34 = Inr 0 \<and>
   calcular_wacc 0 1000000 0.08 0.106 0.34 = Inr 0.106 \<and>
   calcular_wacc 500000 0 0.08 0.106 0.34 = Inr (0.08 * (1 - 0.34))"
  using calcular_wacc_spec [of 0 0 "0.08" "0.106" "0.34"]
    calcular_wacc_spec [of 0 1000000 "0.08" "0.106" "0.34"]
    calcular_wacc_spec [of 500000 0 "0.08" "0.106" "0.34"]
  by simp

subsection \<open>C4: spread, EVA and the three diagnosis bands\<close>

text \<open>
  Claim C4: the diagnosis computes \<open>spread = roic - wacc\<close> and
  \<open>eva = totalCapital * spread\<close> (the total capital being \<open>D + E\<close>), and classifies by
  the first matching band: \<open>spread > 0.02\<close> is Excelente (ValueCreationStrong),
  \<open>0 < spread \<le> 0.02\<close> is Atencao (ValueCreationMarginal), \<open>spread \<le> 0\<close> is Perigo
  (ValueDestruction). In particular a spread of exactly 0.02 is Atencao and a spread of
  exactly 0 is Perigo. The first tab always produces its panel.
\<close>

theorem tab1_diagnosis:
  "(\<exists>p. tab1 i = Inr p \<and> wacc_atual i = Inr (p_wacc p) \<and>
        p_spread p = roic_input i - p_wacc p \<and>
        p_eva p = (D_input i + E_input i) * p_spread p \<and>
        p_diagnostico p = diagnosticar (p_spread p)) \<and>
   (diagnosticar s = Excelente) = (0.02 < s) \<and>
   (diagnosticar s = Atencao) = (0 < s \<and> s \<le> 0.02) \<and>
   (diagnosticar s = Perigo) = (s \<le> 0) \<and>
   diagnosticar 0.02 = Atencao \<and> diagnosticar 0 = Perigo"
proof -
  obtain w where w: "wacc_atual i = Inr w"
    unfolding wacc_atual_def using calcular_wacc_total by blast
  have "\<exists>p. tab1 i = Inr p \<and> wacc_atual i = Inr (p_wacc p) \<and>
        p_spread p = roic_input i - p_wacc p \<and>
        p_eva p = (D_input i + E_input i) * p_spread p \<and>
        p_diagnostico p = diagnosticar (p_spread p)"
    by (simp add: tab1_def w Let_def spread_economico_def eva_def)
  moreover have "(diagnosticar s = Excelente) = (0.02 < s)"
    by (simp add: diagnosticar_def)
  moreover have "(diagnosticar s = Atencao) = (0 < s \<and> s \<le> 0.02)"
    by (auto simp add: diagnosticar_def)
  moreover have "(diagnosticar s = Perigo) = (s \<le> 0)"
    by (auto simp add: diagnosticar_def)
  moreover have "diagnosticar 0.02 = Atencao" "diagnosticar 0 = Perigo"
    by (simp_all add: diagnosticar_def)
  ultimately show ?thesis by blast
qed

subsection \<open>C5: the cost of debt\<close>

text \<open>
  Claim C5: for every base rate and debt weight, the cost of debt is the base rate below
  a debt weight of 0.5 and the base rate plus \<open>(wd - 0.5)\<^sup>2 * 0.5\<close> at or above it; so
  at 0.5 it is the base rate, and it is strictly increasing in the debt weight above 0.5.
\<close>

theorem calc_new_kd_model:
  "calc_new_kd rD wd = (if wd < 0.5 then rD else rD + (wd - 0.5) ^ 2 * 0.5) \<and>
   calc_new_kd rD 0.5 = rD \<and>
   (0.5 < a \<and> a < b \<longrightarrow> calc_new_kd rD a < calc_new_kd rD b)"
proof -
  have "calc_new_kd rD a < calc_new_kd rD b" if "0.5 < a" "a < b"
  proof -
    have "0 < a - 0.5" "a - 0.5 < b - 0.5" using that by simp_all
    then have "(a - 0.5) ^ 2 < (b - 0.5) ^ 2"
      by (intro power_strict_mono) simp_all
    then show ?thesis using that
      by (simp add: calc_new_kd_def calc_risk_premium_debt_def)
  qed
  then show ?thesis
    by (simp add: calc_new_kd_def calc_risk_premium_debt_def)
qed

theorem calc_new_kd_model_witness:
  "(0.5::real) < 0.6 \<and> (0.6::real) < 0.7 \<and> calc_new_kd 0.08 0.6 < calc_new_kd 0.08 0.7"
  using calc_new_kd_model [of "0.08" 0 "0.6" "0.7"] by simp

subsection \<open>C6: relevering then delevering\<close>

text \<open>
  Claim C6: for every beta, tax rate \<open>T\<close> in \<open>[0, 1]\<close>, debt \<open>D \<ge> 0\<close> and equity
  \<open>E > 0\<close>, relevering the beta and delevering the result with the same \<open>D\<close>, \<open>E\<close>,
  \<open>T\<close> (dividing by \<open>1 + (1 - T) * (D / E)\<close>, as line 97 does) succeeds and returns the
  original beta; with zero equity, relevering returns its input unchanged.
\<close>

theorem relever_delever_roundtrip:
  assumes "0 \<le> T" "T \<le> 1" "0 \<le> D" "0 < E"
  shows "(\<exists>bl. hamada_relever_beta beta D E T = Inr bl \<and> delever bl D E T = Inr beta) \<and>
         hamada_relever_beta beta D 0 T = Inr beta"
proof -
  have pos: "0 < 1 + (1 - T) * (D / E)" by (rule hamada_denominator_pos [OF assms])
  have "hamada_relever_beta beta D E T = Inr (beta * (1 + (1 - T) * (D / E)))"
    using assms by (simp add: hamada_relever_beta_eq)
  moreover have "delever (beta * (1 + (1 - T) * (D / E))) D E T = Inr beta"
    using pos by (simp add: delever_eq [OF assms])
  moreover have "hamada_relever_beta beta D 0 T = Inr beta"
    by (simp add: hamada_relever_beta_eq)
  ultimately show ?thesis by simp
qed

theorem relever_delever_roundtrip_witness:
  "(0::real) \<le> 0.34 \<and> (0.34::real) \<le> 1 \<and> (0::real) \<le> 500000 \<and> (0::real) < 1000000 \<and>
   (\<exists>bl. hamada_relever_beta 1.1 500000 1000000 0.34 = Inr bl \<and>
         delever bl 500000 1000000 0.34 = Inr 1.1) \<and>
   hamada_relever_beta 1.1 500000 0 0.34 = Inr 1.1"
  using relever_delever_roundtrip [of "0.34" 500000 1000000 "1.1"] by simp

subsection \<open>C7: the WACC depends on the debt/equity ratio only\<close>

text \<open>
  Claim C7: for all \<open>D\<close>, \<open>E\<close>, \<open>rD\<close>, \<open>rE\<close>, \<open>T\<close> and every positive \<open>k\<close>, scaling debt
  and equity by \<open>k\<close> leaves the WACC unchanged.
\<close>

theorem calcular_wacc_scale_invariant:
  assumes "0 < k"
  shows "calcular_wacc (k * D) (k * E) rD rE T = calcular_wacc D E rD rE T"
proof -
  have s: "k * D + k * E = k * (D + E)" by (simp add: distrib_left)
  show ?thesis
  proof (cases "D + E = 0")
    case True
    then show ?thesis by (simp add: calcular_wacc_zero s)
  next
    case False
    then have "k * D + k * E \<noteq> 0" using assms by (simp add: s)
    then show ?thesis using False assms
      by (simp add: calcular_wacc_nonzero) (simp add: s)
  qed
qed

theorem calcular_wacc_scale_invariant_witness:
  "(0::real) < 2 \<and>
   calcular_wacc (2 * 500000) (2 * 1000000) 0.08 0.106 0.34 =
     calcular_wacc 500000 1000000 0.08 0.106 0.34 \<and>
   calcular_wacc 500000 1000000 0.08 0.106 0.34 = Inr (331 / 3750)"
  using calcular_wacc_scale_invariant [of 2 500000 1000000 "0.08" "0.106" "0.34"]
  by (simp add: calcular_wacc_def py_div_def)

subsection \<open>C8: the end-to-end example\<close>

text \<open>
  The example of the specification is the default input. The figures it quotes for the
  WACC (0.0887), the spread (0.0313) and the EVA (46950) are not the ones the formulas
  give: the WACC is \<open>331 / 3750 = 0.08826...\<close>, the spread \<open>119 / 3750 = 0.03173...\<close>
  and the EVA 47600. The quoted rates are off by more than 4 units of the fourth decimal
  place they are given to, and the quoted EVA by 650.
\<close>

theorem exemplo_padrao_nao_aproxima:
  "wacc_atual entradas_padrao = Inr (331 / 3750) \<and>
   \<not> \<bar>331 / 3750 - 0.0887\<bar> \<le> (0.0004 :: real) \<and>
   spread_economico (roic_input entradas_padrao) (331 / 3750) = 119 / 3750 \<and>
   \<not> \<bar>119 / 3750 - 0.0313\<bar> \<le> (0.0004 :: real) \<and>
   eva (D_input entradas_padrao) (E_input entradas_padrao) (119 / 3750) = 47600 \<and>
   \<not> \<bar>47600 - 46950\<bar> \<le> (600 :: real)"
  by (simp add: entradas_padrao_def wacc_atual_def calcular_wacc_def py_div_def Let_def
     calcular_ke_capm_def spread_economico_def eva_def)

text \<open>
  Claim C8, amended: for \<open>D = 500000\<close>, \<open>E = 1000000\<close>, \<open>T = 0.34\<close>, \<open>rD = 0.08\<close>,
  \<open>rf = 0.04\<close>, \<open>beta = 1.1\<close>, \<open>rm = 0.10\<close> and \<open>ROIC = 0.12\<close> the cost of equity is
  0.106, the WACC is \<open>331 / 3750\<close> (about 0.0883), the spread is \<open>119 / 3750\<close> (about
  0.0317), the classification is Excelente (ValueCreationStrong) and the EVA is 47600.
\<close>

theorem exemplo_padrao_valores:
  "tab1 entradas_padrao =
     Inr \<lparr>p_wacc = 331 / 3750, p_ke = 0.106, p_spread = 119 / 3750, p_eva = 47600,
          p_diagnostico = Excelente\<rparr>"
  by (simp add: tab1_def entradas_padrao_def wacc_atual_def calcular_wacc_def py_div_def Let_def
     calcular_ke_capm_def spread_economico_def eva_def diagnosticar_def)

subsection \<open>C9: the simulation in manual cost-of-equity mode\<close>


subsection \<open>C10: the sampling grid keeps the equity weight at 0.05 or more\<close>

text \<open>
  Claim C10: the grid has 50 debt weights, each in \<open>[0, 0.95]\<close>; so every equity weight
  \<open>1 - wd\<close> is at least 0.05, the branch \<open>we \<le> 0.01\<close> of the loop body is not taken
  (the ratio is computed by the division), and the relevering function is called with
  a non-zero equity argument \<open>we * 100\<close>, so that it applies the Hamada formula.
\<close>

theorem grid_equity_floor:
  "length leverage_ratios = 50 \<and>
   (\<forall>wd \<in> set leverage_ratios.
      0 \<le> wd \<and> wd \<le> 0.95 \<and> 0.05 \<le> 1 - wd \<and> \<not> (1 - wd \<le> 0.01) \<and>
      calc_de_ratio wd (1 - wd) = Inr (wd / (1 - wd)) \<and>
      (1 - wd) * 100 \<noteq> 0 \<and>
      hamada_relever_beta bu (wd * 100) ((1 - wd) * 100) T =
        Inr (bu * (1 + (1 - T) * (wd * 100 / ((1 - wd) * 100)))))"
proof (intro conjI ballI)
  show "length leverage_ratios = 50"
    by (simp add: leverage_ratios_def linspace_def)
next
  fix wd assume "wd \<in> set leverage_ratios"
  then have r: "0 \<le> wd" "wd \<le> 0.95"
    using leverage_ratios_range by blast+
  show "0 \<le> wd" "wd \<le> 0.95" by (rule r)+
  show f: "0.05 \<le> 1 - wd" using r(2) by simp
  show n: "\<not> (1 - wd \<le> 0.01)" using r(2) by simp
  show "calc_de_ratio wd (1 - wd) = Inr (wd / (1 - wd))"
    using n by (simp add: calc_de_ratio_eq)
  show z: "(1 - wd) * 100 \<noteq> 0" using r(2) by simp
  show "hamada_relever_beta bu (wd * 100) ((1 - wd) * 100) T =
        Inr (bu * (1 + (1 - T) * (wd * 100 / ((1 - wd) * 100))))"
    using z by (simp only: hamada_relever_beta_eq if_False)
qed

theorem grid_equity_floor_witness:
  "0.95 \<in> set leverage_ratios \<and> (0.05::real) \<le> 1 - 0.95 \<and> \<not> (1 - 0.95 \<le> (0.01::real)) \<and>
   hamada_relever_beta 1 (0.95 * 100) ((1 - 0.95) * 100) 0 = Inr 20"
  using grid_equity_floor [of 1 0] leverage_ratios_last
  by (simp add: hamada_relever_beta_def py_div_def)

end
